theory Spec2Isabelle
  imports Main
begin

section \<open>Python strings\<close>

text \<open>
  A Python \<open>str\<close> is modelled as a \<open>string\<close> whose characters are the code points
  below 256. The three characters the CSV reader treats specially:
\<close>

abbreviation LF :: char where "LF \<equiv> CHR 0x0A"
abbreviation CR :: char where "CR \<equiv> CHR 0x0D"
abbreviation DQUOTE :: char where "DQUOTE \<equiv> CHR 0x22"

text \<open>
  \<open>str.lower()\<close>: below 256 the code points with a distinct lower-case form are
  \<open>A\<close>..\<open>Z\<close> and \<open>0xC0\<close>..\<open>0xDE\<close> without \<open>0xD7\<close>; each maps 32 places up.
\<close>

definition lower_char :: "char \<Rightarrow> char" where
  "lower_char c =
     (let n = (of_char c :: nat)
      in if (65 \<le> n \<and> n \<le> 90) \<or> (192 \<le> n \<and> n \<le> 222 \<and> n \<noteq> 215)
         then char_of (n + 32) else c)"

definition lower :: "string \<Rightarrow> string" where
  "lower s = map lower_char s"

text \<open>\<open>s.split(sep)\<close> for a one-character separator: never an empty list.\<close>

fun split :: "char \<Rightarrow> string \<Rightarrow> string list" where
  "split sep [] = [[]]"
| "split sep (c # cs) =
     (if c = sep then [] # split sep cs
      else (case split sep cs of [] \<Rightarrow> [[c]] | f # fs \<Rightarrow> (c # f) # fs))"

text \<open>\<open>sep.join(xs)\<close>.\<close>

fun join :: "char \<Rightarrow> string list \<Rightarrow> string" where
  "join sep [] = []"
| "join sep [x] = x"
| "join sep (x # y # ys) = x @ sep # join sep (y # ys)"

section \<open>Exceptions\<close>

text \<open>
  The exceptions that the code below can raise; all of them are subclasses of
  \<open>Exception\<close>, which the \<open>except\<close> clause of \<open>_load_from_csv\<close> catches.
\<close>

datatype exn = OSError | UnicodeDecodeError | CsvError | KeyError string | AttributeError

section \<open>The file system\<close>

text \<open>
  What \<open>os.path.exists\<close> and \<open>open(file_path, mode='r', encoding='utf-8')\<close> find at a
  path: nothing; something that exists and cannot be opened; a text; or a text after
  which reading fails (the complete lines before an undecodable byte sequence).
\<close>

datatype file_state = Absent | Unopenable | Readable string | Corrupt string

type_synonym filesystem = "string \<Rightarrow> file_state"

text \<open>
  A file opened in text mode without \<open>newline\<close> translates \<open>\r\n\<close> and \<open>\r\<close> to
  \<open>\n\<close>, and iterating over it yields the lines with their terminator.
\<close>

fun universal_newlines :: "string \<Rightarrow> string" where
  "universal_newlines [] = []"
| "universal_newlines [c] = (if c = CR then [LF] else [c])"
| "universal_newlines (c # d # cs) =
     (if c = CR \<and> d = LF then LF # universal_newlines cs
      else if c = CR then LF # universal_newlines (d # cs)
      else c # universal_newlines (d # cs))"

fun keepends :: "string \<Rightarrow> string list" where
  "keepends [] = []"
| "keepends (c # cs) =
     (if c = LF then [LF] # keepends cs
      else (case keepends cs of [] \<Rightarrow> [[c]] | l # ls \<Rightarrow> (c # l) # ls))"

definition file_lines :: "string \<Rightarrow> string list" where
  "file_lines text = keepends (universal_newlines text)"

section \<open>csv.reader\<close>

text \<open>
  The state machine of \<open>csv.reader\<close> for the default dialect (\<open>excel\<close>): delimiter
  comma, quote character \<open>"\<close>, doubled quotes, no escape character, no skipping of
  initial spaces, not strict. The states of the escape character cannot be reached and
  are left out. A field of more than \<open>field_limit\<close> characters is an error.
\<close>

datatype parse_state =
  START_RECORD | START_FIELD | IN_FIELD | IN_QUOTED_FIELD | QUOTE_IN_QUOTED_FIELD | EAT_CRNL

record reader =
  state :: parse_state
  saved :: "string list"
  field :: string

definition field_limit :: nat where
  "field_limit = 131072"

definition parse_reset :: reader where
  "parse_reset = \<lparr>state = START_RECORD, saved = [], field = []\<rparr>"

definition parse_save_field :: "reader \<Rightarrow> reader" where
  "parse_save_field r = r\<lparr>saved := saved r @ [field r], field := []\<rparr>"

definition parse_add_char :: "reader \<Rightarrow> char \<Rightarrow> exn + reader" where
  "parse_add_char r c =
     (if field_limit \<le> length (field r) then Inl CsvError
      else Inr (r\<lparr>field := field r @ [c]\<rparr>))"

text \<open>The character \<open>None\<close> is the end of a line (\<open>EOL\<close>).\<close>

definition start_field :: "reader \<Rightarrow> char option \<Rightarrow> exn + reader" where
  "start_field r c =
     (case c of
        None \<Rightarrow> Inr ((parse_save_field r)\<lparr>state := START_RECORD\<rparr>)
      | Some x \<Rightarrow>
          if x = LF \<or> x = CR then Inr ((parse_save_field r)\<lparr>state := EAT_CRNL\<rparr>)
          else if x = DQUOTE then Inr (r\<lparr>state := IN_QUOTED_FIELD\<rparr>)
          else if x = CHR '','' then Inr (parse_save_field r)
          else map_sum id (\<lambda>r'. r'\<lparr>state := IN_FIELD\<rparr>) (parse_add_char r x))"

definition parse_process_char :: "reader \<Rightarrow> char option \<Rightarrow> exn + reader" where
  "parse_process_char r c =
     (case state r of
        START_RECORD \<Rightarrow>
          (case c of
             None \<Rightarrow> Inr r
           | Some x \<Rightarrow>
               if x = LF \<or> x = CR then Inr (r\<lparr>state := EAT_CRNL\<rparr>)
               else start_field (r\<lparr>state := START_FIELD\<rparr>) c)
      | START_FIELD \<Rightarrow> start_field r c
      | IN_FIELD \<Rightarrow>
          (case c of
             None \<Rightarrow> Inr ((parse_save_field r)\<lparr>state := START_RECORD\<rparr>)
           | Some x \<Rightarrow>
               if x = LF \<or> x = CR then Inr ((parse_save_field r)\<lparr>state := EAT_CRNL\<rparr>)
               else if x = CHR '','' then Inr ((parse_save_field r)\<lparr>state := START_FIELD\<rparr>)
               else parse_add_char r x)
      | IN_QUOTED_FIELD \<Rightarrow>
          (case c of
             None \<Rightarrow> Inr r
           | Some x \<Rightarrow>
               if x = DQUOTE then Inr (r\<lparr>state := QUOTE_IN_QUOTED_FIELD\<rparr>)
               else parse_add_char r x)
      | QUOTE_IN_QUOTED_FIELD \<Rightarrow>
          (case c of
             None \<Rightarrow> Inr ((parse_save_field r)\<lparr>state := START_RECORD\<rparr>)
           | Some x \<Rightarrow>
               if x = DQUOTE
               then map_sum id (\<lambda>r'. r'\<lparr>state := IN_QUOTED_FIELD\<rparr>) (parse_add_char r x)
               else if x = CHR '','' then Inr ((parse_save_field r)\<lparr>state := START_FIELD\<rparr>)
               else if x = LF \<or> x = CR then Inr ((parse_save_field r)\<lparr>state := EAT_CRNL\<rparr>)
               else map_sum id (\<lambda>r'. r'\<lparr>state := IN_FIELD\<rparr>) (parse_add_char r x))
      | EAT_CRNL \<Rightarrow>
          (case c of
             None \<Rightarrow> Inr (r\<lparr>state := START_RECORD\<rparr>)
           | Some x \<Rightarrow> if x = LF \<or> x = CR then Inr r else Inl CsvError))"

text \<open>One line: each of its characters, then \<open>EOL\<close>.\<close>

fun feed_line :: "reader \<Rightarrow> string \<Rightarrow> exn + reader" where
  "feed_line r [] = parse_process_char r None"
| "feed_line r (c # cs) =
     (case parse_process_char r (Some c) of
        Inl e \<Rightarrow> Inl e
      | Inr r' \<Rightarrow> feed_line r' cs)"

text \<open>
  The iterator \<open>csv.reader(file)\<close> as the records it yields and how it ends: \<open>None\<close>
  when the input is exhausted, the exception otherwise. Each \<open>next\<close> resets the parser and
  takes lines until the state is \<open>START_RECORD\<close> again; at the end of the input an
  unfinished record is yielded. \<open>bad\<close> says that reading fails after the last line.
\<close>

fun reader_records :: "bool \<Rightarrow> reader \<Rightarrow> string list \<Rightarrow> string list list \<times> exn option" where
  "reader_records bad r [] =
     (if bad then ([], Some UnicodeDecodeError)
      else if field r \<noteq> [] \<or> state r = IN_QUOTED_FIELD
      then ([saved (parse_save_field r)], None)
      else ([], None))"
| "reader_records bad r (l # ls) =
     (case feed_line r l of
        Inl e \<Rightarrow> ([], Some e)
      | Inr r' \<Rightarrow>
          if state r' \<noteq> START_RECORD then reader_records bad r' ls
          else (case reader_records bad parse_reset ls of
                  (recs, e) \<Rightarrow> (saved r' # recs, e)))"

section \<open>csv.DictReader\<close>

text \<open>
  A row of \<open>DictReader\<close> is a dict in insertion order. Under a field name it holds a
  string or \<open>None\<close> (the \<open>restval\<close> of a short record); the surplus values of a long
  record are a list under the key \<open>None\<close> (the \<open>restkey\<close>), kept apart here.
\<close>

record csv_row =
  named :: "(string \<times> string option) list"
  rest :: "string list option"

text \<open>\<open>d[k] = v\<close>: an existing key keeps its place.\<close>

fun dict_set :: "('k \<times> 'v) list \<Rightarrow> 'k \<Rightarrow> 'v \<Rightarrow> ('k \<times> 'v) list" where
  "dict_set [] k v = [(k, v)]"
| "dict_set ((k', v') # d) k v =
     (if k' = k then (k', v) # d else (k', v') # dict_set d k v)"

text \<open>\<open>dict(zip(fieldnames, row))\<close>, continued from a dict.\<close>

fun dict_zip ::
  "(string \<times> string option) list \<Rightarrow> string list \<Rightarrow> string list \<Rightarrow> (string \<times> string option) list"
where
  "dict_zip d (k # ks) (v # vs) = dict_zip (dict_set d k (Some v)) ks vs"
| "dict_zip d _ _ = d"

text \<open>\<open>for key in fieldnames[lr:]: d[key] = restval\<close>.\<close>

fun fill_restval ::
  "(string \<times> string option) list \<Rightarrow> string list \<Rightarrow> (string \<times> string option) list"
where
  "fill_restval d [] = d"
| "fill_restval d (k # ks) = fill_restval (dict_set d k None) ks"

definition make_row :: "string list \<Rightarrow> string list \<Rightarrow> csv_row" where
  "make_row fieldnames row =
     (let d = dict_zip [] fieldnames row;
          lf = length fieldnames;
          lr = length row
      in if lf < lr then \<lparr>named = d, rest = Some (drop lf row)\<rparr>
         else if lf > lr then \<lparr>named = fill_restval d (drop lr fieldnames), rest = None\<rparr>
         else \<lparr>named = d, rest = None\<rparr>)"

text \<open>
  The first record gives the field names; every later record that is not \<open>[]\<close> (a
  blank line) gives a row.
\<close>

definition dict_reader :: "string list list \<times> exn option \<Rightarrow> csv_row list \<times> exn option" where
  "dict_reader src =
     (case src of
        ([], e) \<Rightarrow> ([], e)
      | (fieldnames # recs, e) \<Rightarrow>
          (map (make_row fieldnames) (filter (\<lambda>row. row \<noteq> []) recs), e))"

text \<open>\<open>field in row\<close> and \<open>row[field]\<close>.\<close>

definition contains :: "csv_row \<Rightarrow> string \<Rightarrow> bool" where
  "contains row k = (k \<in> set (map fst (named row)))"

definition getitem :: "csv_row \<Rightarrow> string \<Rightarrow> exn + string option" where
  "getitem row k = (case map_of (named row) k of None \<Rightarrow> Inl (KeyError k) | Some v \<Rightarrow> Inr v)"

section \<open>PortfolioData\<close>

datatype level = WARNING | ERROR

datatype message =
  Not_found string
| Skipping_invalid_row string csv_row
| Error_reading string exn

type_synonym log = "(level \<times> message) list"

text \<open>The loop of \<open>_load_from_csv\<close> over the rows the reader yields.\<close>

fun collect_rows :: "string \<Rightarrow> string list \<Rightarrow> csv_row list \<Rightarrow> csv_row list \<times> log" where
  "collect_rows file_path expected_fields [] = ([], [])"
| "collect_rows file_path expected_fields (row # rows) =
     (case collect_rows file_path expected_fields rows of
        (data, lg) \<Rightarrow>
          if \<not> list_all (\<lambda>f. contains row f) expected_fields
          then (data, (WARNING, Skipping_invalid_row file_path row) # lg)
          else (row # data, lg))"

text \<open>
  The \<open>try\<close> block on an opened file and its \<open>except Exception\<close>: the warnings logged
  before the exception stay in the log, the rows collected are dropped.
\<close>

definition read_opened :: "string \<Rightarrow> string list \<Rightarrow> string list \<Rightarrow> bool \<Rightarrow> csv_row list \<times> log" where
  "read_opened file_path expected_fields ls bad =
     (case dict_reader (reader_records bad parse_reset ls) of
        (rows, e) \<Rightarrow>
          (case collect_rows file_path expected_fields rows of
             (data, lg) \<Rightarrow>
               (case e of
                  None \<Rightarrow> (data, lg)
                | Some ex \<Rightarrow> ([], lg @ [(ERROR, Error_reading file_path ex)]))))"

definition load_from_csv :: "filesystem \<Rightarrow> string \<Rightarrow> string list \<Rightarrow> csv_row list \<times> log" where
  "load_from_csv fs file_path expected_fields =
     (case fs file_path of
        Absent \<Rightarrow> ([], [(WARNING, Not_found file_path)])
      | Unopenable \<Rightarrow> ([], [(ERROR, Error_reading file_path OSError)])
      | Readable text \<Rightarrow> read_opened file_path expected_fields (file_lines text) False
      | Corrupt text \<Rightarrow> read_opened file_path expected_fields (file_lines text) True)"

definition certifications_fields :: "string list" where
  "certifications_fields = [''title'', ''issuer'', ''date'', ''category'', ''url'']"

definition load_certifications :: "filesystem \<Rightarrow> csv_row list \<times> log" where
  "load_certifications fs = load_from_csv fs ''data/certifications.csv'' certifications_fields"

definition blog_posts_fields :: "string list" where
  "blog_posts_fields = [''title'', ''date'', ''description'', ''url'', ''image_url'']"

definition load_blog_posts :: "filesystem \<Rightarrow> csv_row list \<times> log" where
  "load_blog_posts fs = load_from_csv fs ''data/blog_posts.csv'' blog_posts_fields"

text \<open>\<open>x or d\<close> on a string or \<open>None\<close>: the empty string and \<open>None\<close> are false.\<close>

definition or_default :: "string option \<Rightarrow> string \<Rightarrow> string" where
  "or_default x d = (case x of None \<Rightarrow> d | Some s \<Rightarrow> if s = [] then d else s)"

text \<open>\<open>x.split(',') if x else ['Unknown']\<close>.\<close>

definition split_or_unknown :: "string option \<Rightarrow> string list" where
  "split_or_unknown x =
     (case x of None \<Rightarrow> [''Unknown''] | Some s \<Rightarrow> if s = [] then [''Unknown''] else split CHR '','' s)"

text \<open>\<open>x.lower()\<close>: \<open>None\<close> has no such attribute.\<close>

definition lower_method :: "string option \<Rightarrow> exn + string" where
  "lower_method x = (case x of None \<Rightarrow> Inl AttributeError | Some s \<Rightarrow> Inr (lower s))"

definition bind_exn :: "exn + 'a \<Rightarrow> ('a \<Rightarrow> exn + 'b) \<Rightarrow> exn + 'b" where
  "bind_exn x f = (case x of Inl e \<Rightarrow> Inl e | Inr v \<Rightarrow> f v)"

record project =
  title :: string
  description :: string
  tech_stack :: "string list"
  category :: string
  github_url :: string
  demo_url :: string
  is_current :: bool
  image_url :: string

text \<open>The dict display in the loop of \<open>load_projects\<close>, its items evaluated in order.\<close>

definition make_project :: "csv_row \<Rightarrow> exn + project" where
  "make_project row =
     bind_exn (getitem row ''title'') (\<lambda>t.
     bind_exn (getitem row ''description'') (\<lambda>d.
     bind_exn (getitem row ''tech_stack'') (\<lambda>ts.
     bind_exn (getitem row ''category'') (\<lambda>c.
     bind_exn (getitem row ''github_url'') (\<lambda>g.
     bind_exn (getitem row ''demo_url'') (\<lambda>dm.
     bind_exn (getitem row ''is_current'') (\<lambda>ic.
     bind_exn (lower_method ic) (\<lambda>low.
     bind_exn (getitem row ''image_url'') (\<lambda>im.
       Inr \<lparr>title = or_default t ''Untitled Project'',
            description = or_default d ''No description provided'',
            tech_stack = split_or_unknown ts,
            category = or_default c ''other'',
            github_url = or_default g ''#'',
            demo_url = or_default dm ''#'',
            is_current = (low = ''true''),
            image_url = or_default im ''/static/images/projects/default.png''\<rparr>)))))))))"

fun build_projects :: "csv_row list \<Rightarrow> exn + project list" where
  "build_projects [] = Inr []"
| "build_projects (row # rows) =
     bind_exn (make_project row) (\<lambda>p.
     bind_exn (build_projects rows) (\<lambda>ps. Inr (p # ps)))"

definition projects_fields :: "string list" where
  "projects_fields =
     [''title'', ''description'', ''tech_stack'', ''category'', ''github_url'', ''demo_url'',
      ''is_current'', ''image_url'']"

text \<open>\<open>load_projects\<close> has no \<open>try\<close> of its own: an exception in its loop leaves it.\<close>

definition load_projects :: "filesystem \<Rightarrow> (exn + project list) \<times> log" where
  "load_projects fs =
     (case load_from_csv fs ''data/projects.csv'' projects_fields of
        (projects_data, lg) \<Rightarrow> (build_projects projects_data, lg))"

record portfolio =
  name :: string
  profile_title :: string
  about :: string
  experience :: "(string \<times> string) list list"
  education :: "(string \<times> string) list"
  blog_posts :: "csv_row list"
  projects :: "project list"
  certifications :: "csv_row list"
  contact :: "(string \<times> string) list"
  stats :: "(string \<times> string) list"

text \<open>
  The dict display of \<open>get_portfolio_data\<close>: blog posts, projects and certifications are
  loaded in this order, and an exception of a loader ends the evaluation.
\<close>

definition get_portfolio_data :: "filesystem \<Rightarrow> (exn + portfolio) \<times> log" where
  "get_portfolio_data fs =
     (case load_blog_posts fs of
        (blog, lg1) \<Rightarrow>
          (case load_projects fs of
             (Inl e, lg2) \<Rightarrow> (Inl e, lg1 @ lg2)
           | (Inr projs, lg2) \<Rightarrow>
               (case load_certifications fs of
                  (certs, lg3) \<Rightarrow>
                    (Inr \<lparr>name = ''Adem Youssfi'',
                          profile_title = ''AI Expert | Full Stack Developer | Technical Educator'',
                          about = ''A results-driven Computer Science student with over five years of hands-on experience in full-stack development and AI. I have a proven ability to build high-performance, ML-powered applications, lead technical teams, and educate peers through workshops and technical articles. My experience includes a web development internship where I developed over 22 unique web pages for a large-scale e-commerce marketplace. I am passionate about developing scalable, well-documented software and am always eager to learn new technologies.'',
                          experience =
                            [[(''title'', ''Web Development Intern''),
                              (''description'', ''Developed over 22 unique web pages and components for a large-scale e-commerce marketplace project within one month. Contributed to a significant project that has been under continuous development for two years, demonstrating adaptability and rapid integration into existing complex codebase.'')],
                             [(''title'', ''Technical Educator & Workshop Leader''),
                              (''description'', ''Provided private lessons in algorithmics, problem-solving, and web development. Organized and led comprehensive workshops on Flutter, software design, API/backend architecture, AI/ML, and LLM API integration.'')],
                             [(''title'', ''Project Team Leader & System Architect''),
                              (''description'', ''Led development teams of 3-5 members in delivering complex software projects from conception to deployment. Created comprehensive system architecture using UML diagrams. Developed detailed API documentation and technical specifications. Implemented software design patterns and best practices.'')]],
                          education =
                            [(''degree'', ''Bachelor of Science in Computer Science''),
                             (''level'', ''ISITCom (Higher Institute of Information and Communication Technologies), Sousse, Tunisia. Expected Graduation: June 2025 - Current Year: 3rd Year''),
                             (''courses'', ''Relevant Coursework: Data Structures & Algorithms, Database Systems, Software Engineering, Machine Learning, Web Development, Mobile Application Development, Computer Vision'')],
                          blog_posts = blog,
                          projects = projs,
                          certifications = certs,
                          contact =
                            [(''email'', ''ademyoussfi57@gmail.com''),
                             (''whatsapp'', ''+216 55 905 236''),
                             (''whatsapp_url'', ''https://wa.me/21655905236''),
                             (''linkedin'', ''Adem Youssfi''),
                             (''linkedin_url'', ''https://www.linkedin.com/in/adem-youssfi-2289672a4''),
                             (''github'', ''Ad2m1109''),
                             (''github_url'', ''https://github.com/Ad2m1109''),
                             (''blogger'', ''behindthecodebyadem.blogspot.com'')],
                          stats =
                            [(''projects_completed'', ''40+''),
                             (''technologies_mastered'', ''24+''),
                             (''years_coding'', ''5+''),
                             (''github_repos'', ''40+'')]\<rparr>,
                     lg1 @ lg2 @ lg3))))"

section \<open>Example files\<close>

definition projects_header :: string where
  "projects_header =
     ''title,description,tech_stack,category,github_url,demo_url,is_current,image_url''"

text \<open>Two projects: one with a quoted technology list, one with every field empty.\<close>

definition example_projects :: string where
  "example_projects =
     projects_header @ [LF]
     @ ''Portfolio,My site,'' @ [DQUOTE] @ ''Python,Flask'' @ [DQUOTE] @ '',web,,,True,'' @ [LF]
     @ '',,,,,,,'' @ [LF]"

definition certifications_header :: string where
  "certifications_header = ''title,issuer,date,category,url''"

definition example_certifications :: string where
  "example_certifications =
     certifications_header @ [LF]
     @ ''AWS Cert,Amazon,2023-01-01,cloud,https://example.com'' @ [LF]"

text \<open>The same certification without its \<open>url\<close> value, followed by a complete one.\<close>

definition short_certifications :: string where
  "short_certifications =
     certifications_header @ [LF]
     @ ''AWS Cert,Amazon,2023-01-01,cloud'' @ [LF]
     @ ''CKA,CNCF,2024-05-01,cloud,https://example.org'' @ [LF]"

text \<open>A project without its last two values.\<close>

definition short_projects :: string where
  "short_projects =
     projects_header @ [LF]
     @ ''Portfolio,My site,Python,web,,'' @ [LF]"

text \<open>A file system with projects and certifications and no blog posts.\<close>

definition example_fs :: filesystem where
  "example_fs file_path =
     (if file_path = ''data/projects.csv'' then Readable example_projects
      else if file_path = ''data/certifications.csv'' then Readable example_certifications
      else Absent)"

text \<open>The same with the short certification, and with the short project.\<close>

definition short_cert_fs :: filesystem where
  "short_cert_fs file_path =
     (if file_path = ''data/certifications.csv'' then Readable short_certifications
      else example_fs file_path)"

definition short_proj_fs :: filesystem where
  "short_proj_fs file_path =
     (if file_path = ''data/projects.csv'' then Readable short_projects
      else example_fs file_path)"

text \<open>Reading the certifications fails after the two lines; the projects cannot be opened.\<close>

definition broken_fs :: filesystem where
  "broken_fs file_path =
     (if file_path = ''data/certifications.csv'' then Corrupt example_certifications
      else if file_path = ''data/projects.csv'' then Unopenable
      else Absent)"

text \<open>The example file system with one blog post, whose image is left empty.\<close>

definition example_blog_posts :: string where
  "example_blog_posts =
     ''title,date,description,url,image_url'' @ [LF]
     @ ''Hello,2024-01-01,First post,https://blog.example/1,'' @ [LF]"

definition blog_fs :: filesystem where
  "blog_fs file_path =
     (if file_path = ''data/blog_posts.csv'' then Readable example_blog_posts
      else example_fs file_path)"

section \<open>Well-formed sources\<close>

text \<open>
  The source file format: a line of comma-separated column headers, then lines of
  comma-separated values, each line ended by a line feed. A line is plain when it is not
  blank, has no quote character and no line break inside, and is not longer than the field
  limit of the reader.
\<close>

definition plain_line :: "string \<Rightarrow> bool" where
  "plain_line l \<longleftrightarrow>
     l \<noteq> [] \<and> LF \<notin> set l \<and> CR \<notin> set l \<and> DQUOTE \<notin> set l \<and> length l \<le> field_limit"

definition source_text :: "string \<Rightarrow> string list \<Rightarrow> string" where
  "source_text header ls = concat (map (\<lambda>l. l @ [LF]) (header # ls))"

text \<open>Well-formed for a loader: plain lines, and a header with every required column.\<close>

definition well_formed :: "string list \<Rightarrow> string \<Rightarrow> string list \<Rightarrow> bool" where
  "well_formed expected_fields header ls \<longleftrightarrow>
     list_all plain_line (header # ls) \<and> set expected_fields \<subseteq> set (split CHR '','' header)"

section \<open>Facts about strings\<close>

lemma split_nonempty: "split sep s \<noteq> []"
  by (induction s) (auto split: list.splits)

lemma join_split: "join sep (split sep s) = s"
proof (induction s)
  case Nil
  show ?case by simp
next
  case (Cons c cs)
  show ?case
  proof (cases "split sep cs")
    case Nil
    with split_nonempty show ?thesis by blast
  next
    case (Cons f fs)
    with Cons.IH show ?thesis by (cases fs) auto
  qed
qed

lemma split_no_sep: "sep \<notin> set s \<Longrightarrow> split sep s = [s]"
  by (induction s) auto

lemma split_append_sep: "sep \<notin> set x \<Longrightarrow> split sep (x @ sep # s) = x # split sep s"
  by (induction x) auto

lemma split_join:
  "names \<noteq> [] \<Longrightarrow> \<forall>n \<in> set names. sep \<notin> set n \<Longrightarrow> split sep (join sep names) = names"
proof (induction sep names rule: join.induct)
  case (1 sep)
  then show ?case by simp
next
  case (2 sep x)
  then show ?case by (simp add: split_no_sep)
next
  case (3 sep x y ys)
  then show ?case by (simp add: split_append_sep)
qed

lemma of_char_lower_char:
  "(of_char (lower_char c) :: nat) =
     (if (65 \<le> (of_char c :: nat) \<and> (of_char c :: nat) \<le> 90)
          \<or> (192 \<le> (of_char c :: nat) \<and> (of_char c :: nat) \<le> 222 \<and> (of_char c :: nat) \<noteq> 215)
      then of_char c + 32 else of_char c)"
  by (simp add: lower_char_def Let_def)

lemma char_eq_iff_nat: "c = d \<longleftrightarrow> (of_char c :: nat) = of_char d"
  by (metis of_char_eq_iff)

lemma lower_char_t: "lower_char c = CHR ''t'' \<longleftrightarrow> c = CHR ''t'' \<or> c = CHR ''T''"
  unfolding char_eq_iff_nat [of _ "CHR ''t''"] char_eq_iff_nat [of _ "CHR ''T''"] of_char_lower_char
  by auto

lemma lower_char_r: "lower_char c = CHR ''r'' \<longleftrightarrow> c = CHR ''r'' \<or> c = CHR ''R''"
  unfolding char_eq_iff_nat [of _ "CHR ''r''"] char_eq_iff_nat [of _ "CHR ''R''"] of_char_lower_char
  by auto

lemma lower_char_u: "lower_char c = CHR ''u'' \<longleftrightarrow> c = CHR ''u'' \<or> c = CHR ''U''"
  unfolding char_eq_iff_nat [of _ "CHR ''u''"] char_eq_iff_nat [of _ "CHR ''U''"] of_char_lower_char
  by auto

lemma lower_char_e: "lower_char c = CHR ''e'' \<longleftrightarrow> c = CHR ''e'' \<or> c = CHR ''E''"
  unfolding char_eq_iff_nat [of _ "CHR ''e''"] char_eq_iff_nat [of _ "CHR ''E''"] of_char_lower_char
  by auto

text \<open>The strings that \<open>lower\<close> maps to \<open>true\<close> are its sixteen spellings in two cases.\<close>

lemma lower_true_iff:
  "lower s = ''true'' \<longleftrightarrow>
     (\<exists>a b c d. s = [a, b, c, d] \<and> (a = CHR ''t'' \<or> a = CHR ''T'') \<and> (b = CHR ''r'' \<or> b = CHR ''R'')
        \<and> (c = CHR ''u'' \<or> c = CHR ''U'') \<and> (d = CHR ''e'' \<or> d = CHR ''E''))"
proof -
  have "lower s = ''true'' \<longleftrightarrow>
     (\<exists>a b c d. s = [a, b, c, d] \<and> lower_char a = CHR ''t'' \<and> lower_char b = CHR ''r''
        \<and> lower_char c = CHR ''u'' \<and> lower_char d = CHR ''e'')"
    unfolding lower_def by (auto simp: map_eq_Cons_conv)
  then show ?thesis
    by (simp only: lower_char_t lower_char_r lower_char_u lower_char_e)
qed

section \<open>The examples, evaluated\<close>

lemmas parser_defs =
  parse_reset_def parse_process_char_def start_field_def parse_add_char_def
  parse_save_field_def field_limit_def

lemmas reader_defs = read_opened_def dict_reader_def make_row_def contains_def

lemma example_projects_lines:
  "file_lines example_projects =
     [projects_header @ [LF],
      ''Portfolio,My site,'' @ [DQUOTE] @ ''Python,Flask'' @ [DQUOTE] @ '',web,,,True,'' @ [LF],
      '',,,,,,,'' @ [LF]]"
  by (simp add: file_lines_def example_projects_def projects_header_def)

lemma example_projects_records:
  "reader_records False parse_reset (file_lines example_projects) =
     ([projects_fields,
       [''Portfolio'', ''My site'', ''Python,Flask'', ''web'', [], [], ''True'', []],
       [[], [], [], [], [], [], [], []]], None)"
  unfolding example_projects_lines
  by (simp add: parser_defs projects_header_def projects_fields_def)

lemma example_projects_rows:
  "load_from_csv example_fs ''data/projects.csv'' projects_fields =
     ([\<lparr>named =
          [(''title'', Some ''Portfolio''), (''description'', Some ''My site''),
           (''tech_stack'', Some ''Python,Flask''), (''category'', Some ''web''),
           (''github_url'', Some []), (''demo_url'', Some []),
           (''is_current'', Some ''True''), (''image_url'', Some [])],
         rest = None\<rparr>,
       \<lparr>named =
          [(''title'', Some []), (''description'', Some []),
           (''tech_stack'', Some []), (''category'', Some []),
           (''github_url'', Some []), (''demo_url'', Some []),
           (''is_current'', Some []), (''image_url'', Some [])],
         rest = None\<rparr>], [])"
  by (simp add: load_from_csv_def example_fs_def reader_defs example_projects_records
      projects_fields_def)

lemma lower_True: "lower ''True'' = ''true''"
  by (simp add: lower_true_iff)

lemma lower_Nil: "lower [] = []"
  by (simp add: lower_def)

lemma example_projects_loaded:
  "load_projects example_fs =
     (Inr [\<lparr>title = ''Portfolio'', description = ''My site'',
            tech_stack = [''Python'', ''Flask''], category = ''web'',
            github_url = ''#'', demo_url = ''#'', is_current = True,
            image_url = ''/static/images/projects/default.png''\<rparr>,
           \<lparr>title = ''Untitled Project'', description = ''No description provided'',
            tech_stack = [''Unknown''], category = ''other'',
            github_url = ''#'', demo_url = ''#'', is_current = False,
            image_url = ''/static/images/projects/default.png''\<rparr>], [])"
  by (simp add: load_projects_def example_projects_rows make_project_def bind_exn_def
      getitem_def or_default_def split_or_unknown_def lower_method_def lower_True lower_Nil)

section \<open>Building projects\<close>

lemma bind_exn_Inr: "bind_exn x f = Inr y \<longleftrightarrow> (\<exists>v. x = Inr v \<and> f v = Inr y)"
  by (cases x) (auto simp: bind_exn_def)

lemma make_project_Inr:
  assumes "make_project row = Inr p"
  obtains t d ts c g dm ic im where
    "getitem row ''title'' = Inr t" "getitem row ''description'' = Inr d"
    "getitem row ''tech_stack'' = Inr ts" "getitem row ''category'' = Inr c"
    "getitem row ''github_url'' = Inr g" "getitem row ''demo_url'' = Inr dm"
    "getitem row ''is_current'' = Inr (Some ic)" "getitem row ''image_url'' = Inr im"
    "p = \<lparr>title = or_default t ''Untitled Project'',
          description = or_default d ''No description provided'',
          tech_stack = split_or_unknown ts,
          category = or_default c ''other'',
          github_url = or_default g ''#'',
          demo_url = or_default dm ''#'',
          is_current = (lower ic = ''true''),
          image_url = or_default im ''/static/images/projects/default.png''\<rparr>"
  using assms unfolding make_project_def bind_exn_Inr lower_method_def
  by (auto split: option.splits)

lemma build_projects_Inr:
  "build_projects rows = Inr ps \<Longrightarrow> list_all2 (\<lambda>row p. make_project row = Inr p) rows ps"
  by (induction rows arbitrary: ps) (auto simp: bind_exn_Inr)

lemma load_projects_Inr:
  assumes "load_projects fs = (Inr ps, lg)"
  shows "list_all2 (\<lambda>row p. make_project row = Inr p)
           (fst (load_from_csv fs ''data/projects.csv'' projects_fields)) ps"
  using assms
  by (auto simp: load_projects_def split: prod.splits intro: build_projects_Inr)

lemma contains_getitem: "contains row k \<Longrightarrow> \<exists>v. getitem row k = Inr v"
proof -
  assume "contains row k"
  then have "k \<in> fst ` set (named row)" by (simp add: contains_def)
  then obtain v where "map_of (named row) k = Some v"
    by (metis domD dom_map_of_conv_image_fst)
  then show ?thesis by (simp add: getitem_def)
qed

section \<open>The current flag of a project\<close>

text \<open>
  C4. For the project that \<open>load_projects\<close> builds from the row at position \<open>i\<close>, the
  row holds a string under \<open>is_current\<close>, and \<open>is_current\<close> of the project is true
  exactly when that string in lower case is \<open>true\<close>, that is, when it is one of the
  spellings of \<open>true\<close> in upper and lower case; the empty string gives false.
\<close>

theorem is_current_iff_true:
  assumes rows: "load_from_csv fs ''data/projects.csv'' projects_fields = (rows, lg)"
    and ps: "load_projects fs = (Inr ps, lg')"
    and i: "i < length ps"
  shows "\<exists>raw. getitem (rows ! i) ''is_current'' = Inr (Some raw)
           \<and> is_current (ps ! i) = (lower raw = ''true'')
           \<and> is_current (ps ! i) =
               (\<exists>a b c d. raw = [a, b, c, d]
                  \<and> (a = CHR ''t'' \<or> a = CHR ''T'') \<and> (b = CHR ''r'' \<or> b = CHR ''R'')
                  \<and> (c = CHR ''u'' \<or> c = CHR ''U'') \<and> (d = CHR ''e'' \<or> d = CHR ''E''))
           \<and> (raw = [] \<longrightarrow> \<not> is_current (ps ! i))"
proof -
  from load_projects_Inr [OF ps] rows
  have "list_all2 (\<lambda>row p. make_project row = Inr p) rows ps" by simp
  from this i have "make_project (rows ! i) = Inr (ps ! i)"
    by (rule list_all2_nthD2)
  then obtain ic where ic: "getitem (rows ! i) ''is_current'' = Inr (Some ic)"
    and cur: "is_current (ps ! i) = (lower ic = ''true'')"
    by (rule make_project_Inr) simp
  have "ic = [] \<longrightarrow> \<not> is_current (ps ! i)"
    by (simp add: cur lower_def)
  with ic cur show ?thesis
    by (simp add: lower_true_iff)
qed

theorem is_current_iff_true_witness:
  "load_projects example_fs =
     (Inr [\<lparr>title = ''Portfolio'', description = ''My site'',
            tech_stack = [''Python'', ''Flask''], category = ''web'',
            github_url = ''#'', demo_url = ''#'', is_current = True,
            image_url = ''/static/images/projects/default.png''\<rparr>,
           \<lparr>title = ''Untitled Project'', description = ''No description provided'',
            tech_stack = [''Unknown''], category = ''other'',
            github_url = ''#'', demo_url = ''#'', is_current = False,
            image_url = ''/static/images/projects/default.png''\<rparr>], [])
   \<and> (\<exists>raw. getitem (fst (load_from_csv example_fs ''data/projects.csv'' projects_fields) ! 0)
              ''is_current'' = Inr (Some raw)
          \<and> lower raw = ''true'')
   \<and> (\<exists>raw. getitem (fst (load_from_csv example_fs ''data/projects.csv'' projects_fields) ! 1)
              ''is_current'' = Inr (Some raw)
          \<and> lower raw \<noteq> ''true'')"
  using is_current_iff_true [OF example_projects_rows example_projects_loaded, of 0]
    is_current_iff_true [OF example_projects_rows example_projects_loaded, of 1]
  by (simp add: example_projects_loaded example_projects_rows) blast

section \<open>Defaults of a project\<close>

text \<open>
  C5. A row that has every required column, with a string under \<open>is_current\<close>, gives a
  project, and each of its fields whose raw value is the empty string has the fallback
  value: the title \<open>Untitled Project\<close>, the description \<open>No description provided\<close>, the
  technologies \<open>[Unknown]\<close>, the category \<open>other\<close>, both URLs \<open>#\<close> and the image the
  default asset path.
\<close>

theorem empty_fields_defaulted:
  assumes valid: "list_all (contains row) projects_fields"
    and ic: "getitem row ''is_current'' = Inr (Some ic)"
  shows "\<exists>p. make_project row = Inr p
           \<and> (getitem row ''title'' = Inr (Some []) \<longrightarrow> title p = ''Untitled Project'')
           \<and> (getitem row ''description'' = Inr (Some [])
                \<longrightarrow> description p = ''No description provided'')
           \<and> (getitem row ''tech_stack'' = Inr (Some []) \<longrightarrow> tech_stack p = [''Unknown''])
           \<and> (getitem row ''category'' = Inr (Some []) \<longrightarrow> category p = ''other'')
           \<and> (getitem row ''github_url'' = Inr (Some []) \<longrightarrow> github_url p = ''#'')
           \<and> (getitem row ''demo_url'' = Inr (Some []) \<longrightarrow> demo_url p = ''#'')
           \<and> (getitem row ''image_url'' = Inr (Some [])
                \<longrightarrow> image_url p = ''/static/images/projects/default.png'')
           \<and> is_current p = (lower ic = ''true'')"
proof -
  have g: "\<exists>v. getitem row k = Inr v" if "k \<in> set projects_fields" for k
    using valid that by (auto simp: list_all_iff intro: contains_getitem)
  obtain t where t: "getitem row ''title'' = Inr t"
    using g [of "''title''"] by (auto simp: projects_fields_def)
  obtain d where d: "getitem row ''description'' = Inr d"
    using g [of "''description''"] by (auto simp: projects_fields_def)
  obtain ts where ts: "getitem row ''tech_stack'' = Inr ts"
    using g [of "''tech_stack''"] by (auto simp: projects_fields_def)
  obtain c where c: "getitem row ''category'' = Inr c"
    using g [of "''category''"] by (auto simp: projects_fields_def)
  obtain gh where gh: "getitem row ''github_url'' = Inr gh"
    using g [of "''github_url''"] by (auto simp: projects_fields_def)
  obtain dm where dm: "getitem row ''demo_url'' = Inr dm"
    using g [of "''demo_url''"] by (auto simp: projects_fields_def)
  obtain im where im: "getitem row ''image_url'' = Inr im"
    using g [of "''image_url''"] by (auto simp: projects_fields_def)
  from t d ts c gh dm im ic show ?thesis
    by (simp add: make_project_def bind_exn_def lower_method_def or_default_def
        split_or_unknown_def)
qed

theorem empty_fields_defaulted_witness:
  "\<exists>p. make_project
          \<lparr>named =
             [(''title'', Some []), (''description'', Some []),
              (''tech_stack'', Some []), (''category'', Some []),
              (''github_url'', Some []), (''demo_url'', Some []),
              (''is_current'', Some []), (''image_url'', Some [])],
           rest = None\<rparr> = Inr p
     \<and> title p = ''Untitled Project''
     \<and> description p = ''No description provided''
     \<and> tech_stack p = [''Unknown'']
     \<and> category p = ''other''
     \<and> github_url p = ''#''
     \<and> demo_url p = ''#''
     \<and> image_url p = ''/static/images/projects/default.png''
     \<and> \<not> is_current p"
  using empty_fields_defaulted
    [of "\<lparr>named =
             [(''title'', Some []), (''description'', Some []),
              (''tech_stack'', Some []), (''category'', Some []),
              (''github_url'', Some []), (''demo_url'', Some []),
              (''is_current'', Some []), (''image_url'', Some [])],
           rest = None\<rparr>" "[]"]
  by (simp add: contains_def projects_fields_def getitem_def lower_Nil)

section \<open>The technologies of a project\<close>

lemma example_first_project:
  "make_project
     \<lparr>named =
        [(''title'', Some ''Portfolio''), (''description'', Some ''My site''),
         (''tech_stack'', Some ''Python,Flask''), (''category'', Some ''web''),
         (''github_url'', Some []), (''demo_url'', Some []),
         (''is_current'', Some ''True''), (''image_url'', Some [])],
      rest = None\<rparr> =
   Inr \<lparr>title = ''Portfolio'', description = ''My site'',
        tech_stack = [''Python'', ''Flask''], category = ''web'',
        github_url = ''#'', demo_url = ''#'', is_current = True,
        image_url = ''/static/images/projects/default.png''\<rparr>"
  by (simp add: make_project_def bind_exn_def getitem_def or_default_def
      split_or_unknown_def lower_method_def lower_True)

text \<open>
  C8. For a project built from a row whose raw \<open>tech_stack\<close> is a non-empty string:
  joining the technologies of the project with commas gives the raw string back, splitting
  that again gives the same technologies, and whenever the raw string is the join of names
  without a comma, the technologies are exactly those names.
\<close>

theorem tech_stack_roundtrip:
  assumes p: "make_project row = Inr p"
    and raw: "getitem row ''tech_stack'' = Inr (Some raw)"
    and ne: "raw \<noteq> []"
  shows "split CHR '','' (join CHR '','' (tech_stack p)) = tech_stack p
       \<and> join CHR '','' (tech_stack p) = raw
       \<and> (\<forall>names. (\<forall>n \<in> set names. CHR '','' \<notin> set n) \<and> join CHR '','' names = raw
            \<longrightarrow> tech_stack p = names)"
proof -
  from p raw ne have ts: "tech_stack p = split CHR '','' raw"
    by (auto elim!: make_project_Inr simp: split_or_unknown_def)
  have joined: "join CHR '','' (tech_stack p) = raw"
    by (simp add: ts join_split)
  have "tech_stack p = names"
    if "\<forall>n \<in> set names. CHR '','' \<notin> set n" and "join CHR '','' names = raw" for names
  proof -
    from that(2) ne have "names \<noteq> []" by auto
    from this that(1) have "split CHR '','' (join CHR '','' names) = names"
      by (rule split_join)
    with that(2) ts show ?thesis by simp
  qed
  with joined ts show ?thesis by simp
qed

theorem tech_stack_roundtrip_witness:
  "split CHR '','' (join CHR '','' [''Python'', ''Flask'']) = [''Python'', ''Flask'']
     \<and> join CHR '','' [''Python'', ''Flask''] = ''Python,Flask''
     \<and> make_project
         \<lparr>named =
            [(''title'', Some ''Portfolio''), (''description'', Some ''My site''),
             (''tech_stack'', Some ''Python,Flask''), (''category'', Some ''web''),
             (''github_url'', Some []), (''demo_url'', Some []),
             (''is_current'', Some ''True''), (''image_url'', Some [])],
          rest = None\<rparr> =
        Inr \<lparr>title = ''Portfolio'', description = ''My site'',
             tech_stack = [''Python'', ''Flask''], category = ''web'',
             github_url = ''#'', demo_url = ''#'', is_current = True,
             image_url = ''/static/images/projects/default.png''\<rparr>"
  using tech_stack_roundtrip [OF example_first_project, of "''Python,Flask''"]
  by (simp add: getitem_def example_first_project)

text \<open>
  C10. Every project that \<open>load_projects\<close> returns has at least one technology. It is
  built from a loaded row with a raw \<open>tech_stack\<close>; if that is empty (or \<open>None\<close>) the
  technologies are \<open>[Unknown]\<close>, and otherwise they are its split at the commas, which has
  at least one element.
\<close>

theorem tech_stack_never_empty:
  assumes ps: "load_projects fs = (Inr ps, lg)"
    and p: "p \<in> set ps"
  shows "tech_stack p \<noteq> []
       \<and> (\<exists>row \<in> set (fst (load_from_csv fs ''data/projects.csv'' projects_fields)). \<exists>raw.
            make_project row = Inr p \<and> getitem row ''tech_stack'' = Inr raw
            \<and> (raw = None \<or> raw = Some [] \<longrightarrow> tech_stack p = [''Unknown''])
            \<and> (\<forall>s. raw = Some s \<and> s \<noteq> []
                 \<longrightarrow> tech_stack p = split CHR '','' s \<and> 0 < length (split CHR '','' s)))"
proof -
  let ?rows = "fst (load_from_csv fs ''data/projects.csv'' projects_fields)"
  have all2: "list_all2 (\<lambda>row p. make_project row = Inr p) ?rows ps"
    using ps by (rule load_projects_Inr)
  from p obtain i where i: "i < length ps" and pi: "ps ! i = p"
    by (auto simp: in_set_conv_nth)
  from all2 i have mk: "make_project (?rows ! i) = Inr (ps ! i)"
    by (rule list_all2_nthD2)
  from all2 i have mem: "?rows ! i \<in> set ?rows"
    by (simp add: list_all2_lengthD)
  from mk obtain raw where raw: "getitem (?rows ! i) ''tech_stack'' = Inr raw"
    and ts: "tech_stack (ps ! i) = split_or_unknown raw"
    by (rule make_project_Inr) simp
  have ne: "tech_stack p \<noteq> []"
    using ts pi by (auto simp: split_or_unknown_def split_nonempty split: option.splits)
  have "(raw = None \<or> raw = Some [] \<longrightarrow> tech_stack p = [''Unknown''])
      \<and> (\<forall>s. raw = Some s \<and> s \<noteq> []
            \<longrightarrow> tech_stack p = split CHR '','' s \<and> 0 < length (split CHR '','' s))"
    using ts pi by (auto simp: split_or_unknown_def split_nonempty)
  with ne mk raw mem pi show ?thesis by blast
qed

theorem tech_stack_never_empty_witness:
  "tech_stack
     \<lparr>title = ''Untitled Project'', description = ''No description provided'',
      tech_stack = [''Unknown''], category = ''other'',
      github_url = ''#'', demo_url = ''#'', is_current = False,
      image_url = ''/static/images/projects/default.png''\<rparr> \<noteq> []
   \<and> tech_stack
     \<lparr>title = ''Portfolio'', description = ''My site'',
      tech_stack = [''Python'', ''Flask''], category = ''web'',
      github_url = ''#'', demo_url = ''#'', is_current = True,
      image_url = ''/static/images/projects/default.png''\<rparr> \<noteq> []"
  using tech_stack_never_empty [OF example_projects_loaded,
      of "\<lparr>title = ''Untitled Project'', description = ''No description provided'',
      tech_stack = [''Unknown''], category = ''other'',
      github_url = ''#'', demo_url = ''#'', is_current = False,
      image_url = ''/static/images/projects/default.png''\<rparr>"]
    tech_stack_never_empty [OF example_projects_loaded,
      of "\<lparr>title = ''Portfolio'', description = ''My site'',
      tech_stack = [''Python'', ''Flask''], category = ''web'',
      github_url = ''#'', demo_url = ''#'', is_current = True,
      image_url = ''/static/images/projects/default.png''\<rparr>"]
  by simp

section \<open>Sources that are missing or cannot be read\<close>

text \<open>
  C6. When nothing exists at the path, \<open>_load_from_csv\<close> returns the empty list and logs
  one warning; so do the loaders of certifications and blog posts at their paths, and
  \<open>load_projects\<close> returns the empty list of projects, not an exception.
\<close>

theorem missing_source_degrades:
  assumes "fs file_path = Absent"
  shows "load_from_csv fs file_path expected_fields = ([], [(WARNING, Not_found file_path)])
       \<and> (file_path = ''data/certifications.csv''
            \<longrightarrow> load_certifications fs = ([], [(WARNING, Not_found file_path)]))
       \<and> (file_path = ''data/blog_posts.csv''
            \<longrightarrow> load_blog_posts fs = ([], [(WARNING, Not_found file_path)]))
       \<and> (file_path = ''data/projects.csv''
            \<longrightarrow> load_projects fs = (Inr [], [(WARNING, Not_found file_path)]))"
  using assms
  by (auto simp: load_from_csv_def load_certifications_def load_blog_posts_def load_projects_def)

theorem missing_source_degrades_witness:
  "example_fs ''data/blog_posts.csv'' = Absent
     \<and> load_blog_posts example_fs = ([], [(WARNING, Not_found ''data/blog_posts.csv'')])"
proof -
  have absent: "example_fs ''data/blog_posts.csv'' = Absent"
    by (simp add: example_fs_def)
  from missing_source_degrades [of example_fs "''data/blog_posts.csv''" blog_posts_fields] absent
  show ?thesis
    by simp
qed

lemma reader_records_bad: "snd (reader_records True r ls) \<noteq> None"
proof (induction ls arbitrary: r)
  case Nil
  show ?case by simp
next
  case (Cons l ls)
  obtain recs e where rr: "reader_records True parse_reset ls = (recs, e)"
    by (cases "reader_records True parse_reset ls")
  with Cons.IH [of parse_reset] have "e \<noteq> None" by simp
  with rr Cons.IH show ?case
    by (simp split: sum.splits)
qed

lemma dict_reader_snd: "snd (dict_reader src) = snd src"
  by (cases src) (auto simp: dict_reader_def split: list.splits)

lemma collect_rows_fst:
  "fst (collect_rows file_path expected_fields rows) =
     filter (\<lambda>row. list_all (contains row) expected_fields) rows"
  by (induction rows) (auto split: prod.splits)

lemma collect_rows_warnings:
  "\<forall>entry \<in> set (snd (collect_rows file_path expected_fields rows)). fst entry = WARNING"
  by (induction rows) (auto split: prod.splits)

lemma read_opened_raises:
  assumes "snd (reader_records bad parse_reset ls) \<noteq> None"
  shows "\<exists>lg ex. read_opened file_path expected_fields ls bad =
                   ([], lg @ [(ERROR, Error_reading file_path ex)])
           \<and> (\<forall>entry \<in> set lg. fst entry = WARNING)"
proof -
  obtain rows e where dr: "dict_reader (reader_records bad parse_reset ls) = (rows, e)"
    by (cases "dict_reader (reader_records bad parse_reset ls)")
  with assms dict_reader_snd [of "reader_records bad parse_reset ls"]
  obtain ex where ex: "e = Some ex" by auto
  obtain data lg where cr: "collect_rows file_path expected_fields rows = (data, lg)"
    by (cases "collect_rows file_path expected_fields rows")
  with collect_rows_warnings [of file_path expected_fields rows]
  have "\<forall>entry \<in> set lg. fst entry = WARNING" by simp
  with dr ex cr show ?thesis
    by (simp add: read_opened_def)
qed

text \<open>
  C7. When the source exists and cannot be opened, or reading it fails after some lines,
  or the CSV reader raises on its text, \<open>_load_from_csv\<close> returns the empty list, whatever
  rows it had collected, and its log ends with one error entry after warnings only.
\<close>

theorem unreadable_source_degrades:
  assumes "fs file_path = Unopenable \<or> fs file_path = Corrupt text
           \<or> (fs file_path = Readable text
               \<and> snd (reader_records False parse_reset (file_lines text)) \<noteq> None)"
  shows "\<exists>lg ex. load_from_csv fs file_path expected_fields =
                   ([], lg @ [(ERROR, Error_reading file_path ex)])
           \<and> (\<forall>entry \<in> set lg. fst entry = WARNING)"
proof -
  consider "fs file_path = Unopenable" | "fs file_path = Corrupt text"
    | "fs file_path = Readable text"
      "snd (reader_records False parse_reset (file_lines text)) \<noteq> None"
    using assms by blast
  then show ?thesis
  proof cases
    case 1
    then have "load_from_csv fs file_path expected_fields =
        ([], [] @ [(ERROR, Error_reading file_path OSError)])"
      by (simp add: load_from_csv_def)
    then show ?thesis by fastforce
  next
    case 2
    with read_opened_raises [OF reader_records_bad] show ?thesis
      by (simp add: load_from_csv_def)
  next
    case 3
    with read_opened_raises [OF 3(2)] show ?thesis
      by (simp add: load_from_csv_def)
  qed
qed

lemma example_certifications_lines:
  "file_lines example_certifications =
     [certifications_header @ [LF],
      ''AWS Cert,Amazon,2023-01-01,cloud,https://example.com'' @ [LF]]"
  by (simp add: file_lines_def example_certifications_def certifications_header_def)

lemma example_certifications_records:
  "reader_records bad parse_reset (file_lines example_certifications) =
     ([certifications_fields,
       [''AWS Cert'', ''Amazon'', ''2023-01-01'', ''cloud'', ''https://example.com'']],
      if bad then Some UnicodeDecodeError else None)"
  unfolding example_certifications_lines
  by (simp add: parser_defs certifications_header_def certifications_fields_def)

lemma example_certifications_loaded:
  "load_certifications example_fs =
     ([\<lparr>named =
          [(''title'', Some ''AWS Cert''), (''issuer'', Some ''Amazon''),
           (''date'', Some ''2023-01-01''), (''category'', Some ''cloud''),
           (''url'', Some ''https://example.com'')],
         rest = None\<rparr>], [])"
  by (simp add: load_certifications_def load_from_csv_def example_fs_def reader_defs
      example_certifications_records certifications_fields_def)

theorem unreadable_source_degrades_witness:
  "broken_fs ''data/certifications.csv'' = Corrupt example_certifications
     \<and> load_from_csv broken_fs ''data/certifications.csv'' certifications_fields =
         ([], [(ERROR, Error_reading ''data/certifications.csv'' UnicodeDecodeError)])
     \<and> broken_fs ''data/projects.csv'' = Unopenable
     \<and> load_from_csv broken_fs ''data/projects.csv'' projects_fields =
         ([], [(ERROR, Error_reading ''data/projects.csv'' OSError)])"
proof -
  have c: "broken_fs ''data/certifications.csv'' = Corrupt example_certifications"
    and u: "broken_fs ''data/projects.csv'' = Unopenable"
    by (simp_all add: broken_fs_def)
  have "load_from_csv broken_fs ''data/certifications.csv'' certifications_fields =
         ([], [(ERROR, Error_reading ''data/certifications.csv'' UnicodeDecodeError)])"
    using unreadable_source_degrades
      [of broken_fs "''data/certifications.csv''" example_certifications certifications_fields]
    by (simp add: c load_from_csv_def reader_defs example_certifications_records
        certifications_fields_def)
  moreover
  have "load_from_csv broken_fs ''data/projects.csv'' projects_fields =
         ([], [(ERROR, Error_reading ''data/projects.csv'' OSError)])"
    using unreadable_source_degrades
      [of broken_fs "''data/projects.csv''" "[]" projects_fields]
    by (simp add: u load_from_csv_def)
  ultimately show ?thesis using c u by simp
qed

section \<open>Certifications and blog posts\<close>

text \<open>
  C9. When the reader ends normally, \<open>load_certifications\<close> and \<open>load_blog_posts\<close>
  return exactly the rows of the \<open>DictReader\<close> that have every required column, unchanged
  and in order. On the file with the header \<open>title,issuer,date,category,url\<close> and the line
  \<open>AWS Cert,Amazon,2023-01-01,cloud,https://example.com\<close> the result is one row with
  these five values under the five names, and nothing is logged.
\<close>

theorem certifications_verbatim:
  "(fs ''data/certifications.csv'' = Readable text
      \<and> dict_reader (reader_records False parse_reset (file_lines text)) = (rows, None)
      \<longrightarrow> fst (load_certifications fs) =
            filter (\<lambda>row. list_all (contains row) certifications_fields) rows)
   \<and> (fs ''data/blog_posts.csv'' = Readable text
      \<and> dict_reader (reader_records False parse_reset (file_lines text)) = (rows, None)
      \<longrightarrow> fst (load_blog_posts fs) =
            filter (\<lambda>row. list_all (contains row) blog_posts_fields) rows)
   \<and> (fs ''data/certifications.csv'' =
        Readable (''title,issuer,date,category,url'' @ [LF]
                  @ ''AWS Cert,Amazon,2023-01-01,cloud,https://example.com'' @ [LF])
      \<longrightarrow> load_certifications fs =
            ([\<lparr>named =
                 [(''title'', Some ''AWS Cert''), (''issuer'', Some ''Amazon''),
                  (''date'', Some ''2023-01-01''), (''category'', Some ''cloud''),
                  (''url'', Some ''https://example.com'')],
               rest = None\<rparr>], []))"
proof (intro conjI impI)
  assume "fs ''data/certifications.csv'' = Readable text
      \<and> dict_reader (reader_records False parse_reset (file_lines text)) = (rows, None)"
  then show "fst (load_certifications fs) =
      filter (\<lambda>row. list_all (contains row) certifications_fields) rows"
    using collect_rows_fst [of "''data/certifications.csv''" certifications_fields rows]
    by (simp add: load_certifications_def load_from_csv_def read_opened_def split: prod.splits)
next
  assume "fs ''data/blog_posts.csv'' = Readable text
      \<and> dict_reader (reader_records False parse_reset (file_lines text)) = (rows, None)"
  then show "fst (load_blog_posts fs) =
      filter (\<lambda>row. list_all (contains row) blog_posts_fields) rows"
    using collect_rows_fst [of "''data/blog_posts.csv''" blog_posts_fields rows]
    by (simp add: load_blog_posts_def load_from_csv_def read_opened_def split: prod.splits)
next
  assume "fs ''data/certifications.csv'' =
        Readable (''title,issuer,date,category,url'' @ [LF]
                  @ ''AWS Cert,Amazon,2023-01-01,cloud,https://example.com'' @ [LF])"
  then have "fs ''data/certifications.csv'' = Readable example_certifications"
    by (simp add: example_certifications_def certifications_header_def)
  then show "load_certifications fs =
            ([\<lparr>named =
                 [(''title'', Some ''AWS Cert''), (''issuer'', Some ''Amazon''),
                  (''date'', Some ''2023-01-01''), (''category'', Some ''cloud''),
                  (''url'', Some ''https://example.com'')],
               rest = None\<rparr>], [])"
    by (simp add: load_certifications_def load_from_csv_def reader_defs
        example_certifications_records certifications_fields_def)
qed

lemma example_certifications_rows:
  "dict_reader (reader_records False parse_reset (file_lines example_certifications)) =
     ([\<lparr>named =
          [(''title'', Some ''AWS Cert''), (''issuer'', Some ''Amazon''),
           (''date'', Some ''2023-01-01''), (''category'', Some ''cloud''),
           (''url'', Some ''https://example.com'')],
         rest = None\<rparr>], None)"
  by (simp add: example_certifications_records dict_reader_def make_row_def
      certifications_fields_def)

lemma example_blog_posts_rows:
  "dict_reader (reader_records False parse_reset (file_lines example_blog_posts)) =
     ([\<lparr>named =
          [(''title'', Some ''Hello''), (''date'', Some ''2024-01-01''),
           (''description'', Some ''First post''), (''url'', Some ''https://blog.example/1''),
           (''image_url'', Some [])],
         rest = None\<rparr>], None)"
  by (simp add: file_lines_def example_blog_posts_def parser_defs dict_reader_def make_row_def)

theorem certifications_verbatim_witness:
  "blog_fs ''data/certifications.csv'' =
     Readable (''title,issuer,date,category,url'' @ [LF]
               @ ''AWS Cert,Amazon,2023-01-01,cloud,https://example.com'' @ [LF])
   \<and> load_certifications blog_fs =
       ([\<lparr>named =
            [(''title'', Some ''AWS Cert''), (''issuer'', Some ''Amazon''),
             (''date'', Some ''2023-01-01''), (''category'', Some ''cloud''),
             (''url'', Some ''https://example.com'')],
          rest = None\<rparr>], [])
   \<and> fst (load_blog_posts blog_fs) =
       [\<lparr>named =
           [(''title'', Some ''Hello''), (''date'', Some ''2024-01-01''),
            (''description'', Some ''First post''), (''url'', Some ''https://blog.example/1''),
            (''image_url'', Some [])],
         rest = None\<rparr>]"
proof -
  have cert: "blog_fs ''data/certifications.csv'' = Readable example_certifications"
    and blog: "blog_fs ''data/blog_posts.csv'' = Readable example_blog_posts"
    by (simp_all add: blog_fs_def example_fs_def)
  have spelled: "example_certifications =
      ''title,issuer,date,category,url'' @ [LF]
        @ ''AWS Cert,Amazon,2023-01-01,cloud,https://example.com'' @ [LF]"
    by (simp add: example_certifications_def certifications_header_def)
  from certifications_verbatim [of blog_fs example_certifications
      "[\<lparr>named =
          [(''title'', Some ''AWS Cert''), (''issuer'', Some ''Amazon''),
           (''date'', Some ''2023-01-01''), (''category'', Some ''cloud''),
           (''url'', Some ''https://example.com'')],
         rest = None\<rparr>]"]
    certifications_verbatim [of blog_fs example_blog_posts
      "[\<lparr>named =
          [(''title'', Some ''Hello''), (''date'', Some ''2024-01-01''),
           (''description'', Some ''First post''), (''url'', Some ''https://blog.example/1''),
           (''image_url'', Some [])],
         rest = None\<rparr>]"]
    cert blog
    example_certifications_rows example_blog_posts_rows spelled
  show ?thesis
    by (simp add: contains_def certifications_fields_def blog_posts_fields_def)
qed

section \<open>Short rows\<close>

lemma short_certifications_lines:
  "file_lines short_certifications =
     [certifications_header @ [LF],
      ''AWS Cert,Amazon,2023-01-01,cloud'' @ [LF],
      ''CKA,CNCF,2024-05-01,cloud,https://example.org'' @ [LF]]"
  by (simp add: file_lines_def short_certifications_def certifications_header_def)

lemma short_certifications_records:
  "reader_records False parse_reset (file_lines short_certifications) =
     ([certifications_fields,
       [''AWS Cert'', ''Amazon'', ''2023-01-01'', ''cloud''],
       [''CKA'', ''CNCF'', ''2024-05-01'', ''cloud'', ''https://example.org'']], None)"
  unfolding short_certifications_lines
  by (simp add: parser_defs certifications_header_def certifications_fields_def)

text \<open>
  C1. The certification without its \<open>url\<close> value: \<open>DictReader\<close> puts \<open>None\<close> under
  \<open>url\<close>, so the row has every required key; it is returned, before the complete row,
  and no warning is logged.
\<close>

theorem short_row_is_kept:
  "load_certifications short_cert_fs =
     ([\<lparr>named =
          [(''title'', Some ''AWS Cert''), (''issuer'', Some ''Amazon''),
           (''date'', Some ''2023-01-01''), (''category'', Some ''cloud''),
           (''url'', None)],
         rest = None\<rparr>,
       \<lparr>named =
          [(''title'', Some ''CKA''), (''issuer'', Some ''CNCF''),
           (''date'', Some ''2024-05-01''), (''category'', Some ''cloud''),
           (''url'', Some ''https://example.org'')],
         rest = None\<rparr>], [])"
  by (simp add: load_certifications_def load_from_csv_def short_cert_fs_def reader_defs
      short_certifications_records certifications_fields_def)

lemma short_projects_lines:
  "file_lines short_projects =
     [projects_header @ [LF], ''Portfolio,My site,Python,web,,'' @ [LF]]"
  by (simp add: file_lines_def short_projects_def projects_header_def)

lemma short_projects_records:
  "reader_records False parse_reset (file_lines short_projects) =
     ([projects_fields, [''Portfolio'', ''My site'', ''Python'', ''web'', [], []]], None)"
  unfolding short_projects_lines
  by (simp add: parser_defs projects_header_def projects_fields_def)

lemma short_projects_rows:
  "load_from_csv short_proj_fs ''data/projects.csv'' projects_fields =
     ([\<lparr>named =
          [(''title'', Some ''Portfolio''), (''description'', Some ''My site''),
           (''tech_stack'', Some ''Python''), (''category'', Some ''web''),
           (''github_url'', Some []), (''demo_url'', Some []),
           (''is_current'', None), (''image_url'', None)],
         rest = None\<rparr>], [])"
  by (simp add: load_from_csv_def short_proj_fs_def reader_defs short_projects_records
      projects_fields_def)

lemma short_projects_loaded: "load_projects short_proj_fs = (Inl AttributeError, [])"
  by (simp add: load_projects_def short_projects_rows make_project_def bind_exn_def
      getitem_def lower_method_def)

text \<open>
  C2. The project without its last two values: the row is kept with \<open>None\<close> under
  \<open>is_current\<close>, \<open>None.lower()\<close> raises \<open>AttributeError\<close> in \<open>load_projects\<close>, and
  \<open>get_portfolio_data\<close> ends with that exception, after the warning for the missing
  blog posts.
\<close>

theorem short_project_row_raises:
  "get_portfolio_data short_proj_fs =
     (Inl AttributeError, [(WARNING, Not_found ''data/blog_posts.csv'')])"
  by (simp add: get_portfolio_data_def short_projects_loaded load_blog_posts_def
      load_from_csv_def short_proj_fs_def example_fs_def)

section \<open>Reading a well-formed source\<close>

lemma universal_newlines_id: "CR \<notin> set t \<Longrightarrow> universal_newlines t = t"
  by (induction t rule: universal_newlines.induct) auto

lemma keepends_line: "LF \<notin> set l \<Longrightarrow> keepends (l @ LF # t) = (l @ [LF]) # keepends t"
  by (induction l) auto

lemma keepends_lines:
  "\<forall>l \<in> set ls. LF \<notin> set l \<Longrightarrow> keepends (concat (map (\<lambda>l. l @ [LF]) ls)) = map (\<lambda>l. l @ [LF]) ls"
  by (induction ls) (auto simp: keepends_line)

lemma file_lines_source_text:
  assumes "list_all plain_line (header # ls)"
  shows "file_lines (source_text header ls) = map (\<lambda>l. l @ [LF]) (header # ls)"
proof -
  from assms have lf: "\<forall>l \<in> set (header # ls). LF \<notin> set l"
    and cr: "\<forall>l \<in> set (header # ls). CR \<notin> set l"
    by (auto simp: list_all_iff plain_line_def)
  from cr have "CR \<notin> set (source_text header ls)"
    by (auto simp: source_text_def)
  then have "file_lines (source_text header ls) = keepends (source_text header ls)"
    by (simp add: file_lines_def universal_newlines_id)
  also have "\<dots> = map (\<lambda>l. l @ [LF]) (header # ls)"
    unfolding source_text_def using lf by (rule keepends_lines)
  finally show ?thesis .
qed

text \<open>
  A line without quotes and line breaks, fed to the parser inside a field or at the start
  of one: the saved fields grow by the split of the line at its commas.
\<close>

lemma feed_line_plain:
  assumes "LF \<notin> set l" "CR \<notin> set l" "DQUOTE \<notin> set l"
  shows "(length f + length l \<le> field_limit \<longrightarrow>
          feed_line \<lparr>state = IN_FIELD, saved = sv, field = f\<rparr> (l @ [LF]) =
            Inr \<lparr>state = START_RECORD,
                 saved = sv @ (f @ hd (split CHR '','' l)) # tl (split CHR '','' l),
                 field = []\<rparr>)
       \<and> (length l \<le> field_limit \<longrightarrow>
          feed_line \<lparr>state = START_FIELD, saved = sv, field = []\<rparr> (l @ [LF]) =
            Inr \<lparr>state = START_RECORD, saved = sv @ split CHR '','' l, field = []\<rparr>)"
  using assms
proof (induction l arbitrary: sv f)
  case Nil
  show ?case
    by (simp add: parse_process_char_def start_field_def parse_save_field_def)
next
  case (Cons c l)
  then have c: "c \<noteq> LF" "c \<noteq> CR" "c \<noteq> DQUOTE"
    and l: "LF \<notin> set l" "CR \<notin> set l" "DQUOTE \<notin> set l"
    by auto
  note IH = Cons.IH [OF l]
  obtain x xs where sp: "split CHR '','' l = x # xs"
    using split_nonempty [of "CHR '',''" l] by (cases "split CHR '','' l") auto
  show ?case
  proof (cases "c = CHR '',''")
    case True
    with c IH [of "[]" "sv @ [f]"] IH [of "[]" "sv @ [[]]"] show ?thesis
      by (simp add: parse_process_char_def start_field_def parse_save_field_def)
  next
    case False
    with c sp IH [of "f @ [c]" sv] IH [of "[c]" sv] show ?thesis
      by (simp add: parse_process_char_def start_field_def parse_save_field_def
          parse_add_char_def)
  qed
qed

lemma feed_line_plain_line:
  assumes "plain_line l"
  shows "feed_line parse_reset (l @ [LF]) =
           Inr \<lparr>state = START_RECORD, saved = split CHR '','' l, field = []\<rparr>"
proof -
  from assms obtain c cs where l: "l = c # cs" and c: "c \<noteq> LF" "c \<noteq> CR"
    by (cases l) (auto simp: plain_line_def)
  have "feed_line parse_reset (l @ [LF]) =
      feed_line \<lparr>state = START_FIELD, saved = [], field = []\<rparr> (l @ [LF])"
    using c by (simp add: l parse_reset_def parse_process_char_def)
  also have "\<dots> = Inr \<lparr>state = START_RECORD, saved = [] @ split CHR '','' l, field = []\<rparr>"
    using feed_line_plain [of l "[]" "[]"] assms by (simp add: plain_line_def)
  finally show ?thesis by simp
qed

lemma parse_reset_sel:
  "state parse_reset = START_RECORD" "saved parse_reset = []" "field parse_reset = []"
  by (simp_all add: parse_reset_def)

lemma reader_records_plain:
  "list_all plain_line ls \<Longrightarrow>
     reader_records False parse_reset (map (\<lambda>l. l @ [LF]) ls) = (map (split CHR '','') ls, None)"
  by (induction ls) (simp_all add: feed_line_plain_line parse_reset_sel)

text \<open>A row of the \<open>DictReader\<close> has every field name as a key, whatever the record.\<close>

lemma keys_dict_set: "fst ` set (dict_set d k v) = insert k (fst ` set d)"
proof (induction d)
  case Nil
  show ?case by simp
next
  case (Cons kv d)
  obtain k' v' where kv: "kv = (k', v')" by (cases kv)
  show ?case
  proof (cases "k' = k")
    case True
    then show ?thesis by (simp add: kv)
  next
    case False
    then show ?thesis by (simp add: kv Cons.IH insert_commute)
  qed
qed

lemma keys_dict_zip:
  "fst ` set (dict_zip d ks vs) = fst ` set d \<union> set (take (length vs) ks)"
proof (induction ks arbitrary: d vs)
  case Nil
  show ?case by simp
next
  case (Cons k ks)
  show ?case
  proof (cases vs)
    case Nil
    then show ?thesis by simp
  next
    case (Cons v vs')
    then show ?thesis
      by (simp add: Cons.IH keys_dict_set insert_commute)
  qed
qed

lemma keys_fill_restval: "fst ` set (fill_restval d ks) = fst ` set d \<union> set ks"
proof (induction d ks rule: fill_restval.induct)
  case (1 d)
  show ?case by simp
next
  case (2 d k ks)
  then show ?case
    by (simp add: keys_dict_set)
qed

lemma keys_make_row: "fst ` set (named (make_row fieldnames row)) = set fieldnames"
proof -
  have split: "set (take (length row) fieldnames) \<union> set (drop (length row) fieldnames)
      = set fieldnames"
    by (metis append_take_drop_id set_append)
  consider "length fieldnames < length row" | "length row < length fieldnames"
    | "length fieldnames = length row"
    by linarith
  then show ?thesis
  proof cases
    case 1
    then show ?thesis
      by (simp add: make_row_def Let_def keys_dict_zip)
  next
    case 2
    with split show ?thesis
      by (simp add: make_row_def Let_def keys_dict_zip keys_fill_restval)
  next
    case 3
    then show ?thesis
      by (simp add: make_row_def Let_def keys_dict_zip)
  qed
qed

lemma contains_make_row: "contains (make_row fieldnames row) k \<longleftrightarrow> k \<in> set fieldnames"
  by (simp add: contains_def keys_make_row)

lemma collect_rows_all_valid:
  "\<forall>row \<in> set rows. list_all (contains row) expected_fields \<Longrightarrow>
     collect_rows file_path expected_fields rows = (rows, [])"
  by (induction rows) auto

lemma dict_set_fresh: "k \<notin> fst ` set d \<Longrightarrow> dict_set d k v = d @ [(k, v)]"
  by (induction d) auto

lemma dict_zip_distinct:
  "distinct ks \<Longrightarrow> set ks \<inter> fst ` set d = {} \<Longrightarrow> length vs = length ks \<Longrightarrow>
     dict_zip d ks vs = d @ zip ks (map Some vs)"
proof (induction ks arbitrary: d vs)
  case Nil
  then show ?case by simp
next
  case (Cons k ks)
  from Cons.prems obtain v vs' where vs: "vs = v # vs'" and len: "length vs' = length ks"
    by (cases vs) auto
  from Cons.prems have fresh: "k \<notin> fst ` set d" and dist: "distinct ks"
    by auto
  from Cons.prems have "set ks \<inter> fst ` set (dict_set d k (Some v)) = {}"
    by (auto simp: keys_dict_set)
  from dist this len have "dict_zip (dict_set d k (Some v)) ks vs' =
      dict_set d k (Some v) @ zip ks (map Some vs')"
    by (rule Cons.IH)
  with fresh show ?case by (simp add: vs dict_set_fresh)
qed

lemma make_row_full:
  "distinct fieldnames \<Longrightarrow> length row = length fieldnames \<Longrightarrow>
     make_row fieldnames row = \<lparr>named = zip fieldnames (map Some row), rest = None\<rparr>"
  by (simp add: make_row_def Let_def dict_zip_distinct)

lemma read_opened_well_formed:
  assumes wf: "well_formed expected_fields header ls"
  shows "read_opened file_path expected_fields (file_lines (source_text header ls)) False =
           (map (\<lambda>l. make_row (split CHR '','' header) (split CHR '','' l)) ls, [])"
proof -
  let ?rows = "map (\<lambda>l. make_row (split CHR '','' header) (split CHR '','' l)) ls"
  from wf have plain: "list_all plain_line (header # ls)"
    and cols: "set expected_fields \<subseteq> set (split CHR '','' header)"
    by (simp_all add: well_formed_def)
  have "reader_records False parse_reset (file_lines (source_text header ls)) =
      (map (split CHR '','') (header # ls), None)"
    using plain by (simp only: file_lines_source_text reader_records_plain)
  then have dr: "dict_reader (reader_records False parse_reset (file_lines (source_text header ls)))
      = (?rows, None)"
    by (simp add: dict_reader_def split_nonempty comp_def)
  have "\<forall>row \<in> set ?rows. list_all (contains row) expected_fields"
    using cols by (auto simp: list_all_iff contains_make_row)
  then have "collect_rows file_path expected_fields ?rows = (?rows, [])"
    by (rule collect_rows_all_valid)
  with dr show ?thesis
    by (simp add: read_opened_def)
qed

text \<open>
  C3. For a well-formed source, \<open>_load_from_csv\<close> returns one row for each data line, in
  the order of the lines, and logs nothing: the row at position \<open>i\<close> is the row that
  \<open>DictReader\<close> makes of the values of line \<open>i\<close>, and when the header names are distinct
  and the line has as many values as the header has names, the row pairs each name with
  its value.
\<close>

theorem well_formed_rows_in_order:
  assumes wf: "well_formed expected_fields header ls"
    and src: "fs file_path = Readable (source_text header ls)"
  shows "load_from_csv fs file_path expected_fields =
           (map (\<lambda>l. make_row (split CHR '','' header) (split CHR '','' l)) ls, [])
       \<and> length (fst (load_from_csv fs file_path expected_fields)) = length ls
       \<and> (\<forall>i < length ls.
            fst (load_from_csv fs file_path expected_fields) ! i =
              make_row (split CHR '','' header) (split CHR '','' (ls ! i))
            \<and> (distinct (split CHR '','' header)
                 \<and> length (split CHR '','' (ls ! i)) = length (split CHR '','' header)
               \<longrightarrow> fst (load_from_csv fs file_path expected_fields) ! i =
                     \<lparr>named = zip (split CHR '','' header) (map Some (split CHR '','' (ls ! i))),
                      rest = None\<rparr>))"
proof -
  from src read_opened_well_formed [OF wf, of file_path]
  have "load_from_csv fs file_path expected_fields =
      (map (\<lambda>l. make_row (split CHR '','' header) (split CHR '','' l)) ls, [])"
    by (simp add: load_from_csv_def)
  then show ?thesis
    by (simp add: make_row_full)
qed

theorem well_formed_rows_in_order_witness:
  "well_formed certifications_fields ''title,issuer,date,category,url''
     [''AWS Cert,Amazon,2023-01-01,cloud,https://example.com'',
      ''CKA,CNCF,2024-05-01,cloud,https://example.org'']
   \<and> load_from_csv
       (\<lambda>_. Readable (source_text ''title,issuer,date,category,url''
               [''AWS Cert,Amazon,2023-01-01,cloud,https://example.com'',
                ''CKA,CNCF,2024-05-01,cloud,https://example.org'']))
       ''data/certifications.csv'' certifications_fields =
       ([\<lparr>named =
            [(''title'', Some ''AWS Cert''), (''issuer'', Some ''Amazon''),
             (''date'', Some ''2023-01-01''), (''category'', Some ''cloud''),
             (''url'', Some ''https://example.com'')],
          rest = None\<rparr>,
         \<lparr>named =
            [(''title'', Some ''CKA''), (''issuer'', Some ''CNCF''),
             (''date'', Some ''2024-05-01''), (''category'', Some ''cloud''),
             (''url'', Some ''https://example.org'')],
          rest = None\<rparr>], [])"
proof -
  have wf: "well_formed certifications_fields ''title,issuer,date,category,url''
     [''AWS Cert,Amazon,2023-01-01,cloud,https://example.com'',
      ''CKA,CNCF,2024-05-01,cloud,https://example.org'']"
    by (simp add: well_formed_def plain_line_def field_limit_def certifications_fields_def)
  from well_formed_rows_in_order [OF wf, of "\<lambda>_. Readable (source_text ''title,issuer,date,category,url''
               [''AWS Cert,Amazon,2023-01-01,cloud,https://example.com'',
                ''CKA,CNCF,2024-05-01,cloud,https://example.org''])" "''data/certifications.csv''"]
  have "load_from_csv
       (\<lambda>_. Readable (source_text ''title,issuer,date,category,url''
               [''AWS Cert,Amazon,2023-01-01,cloud,https://example.com'',
                ''CKA,CNCF,2024-05-01,cloud,https://example.org'']))
       ''data/certifications.csv'' certifications_fields =
       (map (\<lambda>l. make_row (split CHR '','' ''title,issuer,date,category,url'') (split CHR '','' l))
          [''AWS Cert,Amazon,2023-01-01,cloud,https://example.com'',
           ''CKA,CNCF,2024-05-01,cloud,https://example.org''], [])"
    by blast
  then have "load_from_csv
       (\<lambda>_. Readable (source_text ''title,issuer,date,category,url''
               [''AWS Cert,Amazon,2023-01-01,cloud,https://example.com'',
                ''CKA,CNCF,2024-05-01,cloud,https://example.org'']))
       ''data/certifications.csv'' certifications_fields =
       ([\<lparr>named =
            [(''title'', Some ''AWS Cert''), (''issuer'', Some ''Amazon''),
             (''date'', Some ''2023-01-01''), (''category'', Some ''cloud''),
             (''url'', Some ''https://example.com'')],
          rest = None\<rparr>,
         \<lparr>named =
            [(''title'', Some ''CKA''), (''issuer'', Some ''CNCF''),
             (''date'', Some ''2024-05-01''), (''category'', Some ''cloud''),
             (''url'', Some ''https://example.org'')],
          rest = None\<rparr>], [])"
    by (simp add: make_row_def)
  with wf show ?thesis by (rule conjI)
qed

section \<open>When the aggregate raises\<close>

text \<open>
  Whether a row is kept depends on the header alone: \<open>DictReader\<close> gives every row all
  the field names as keys.
\<close>

lemma row_valid_iff_header:
  "list_all (contains (make_row fieldnames row)) expected_fields
     \<longleftrightarrow> set expected_fields \<subseteq> set fieldnames"
  by (auto simp: list_all_iff contains_make_row)

lemma loaded_rows_valid:
  assumes "row \<in> set (fst (load_from_csv fs file_path expected_fields))"
  shows "list_all (contains row) expected_fields"
proof -
  have cr: "list_all (contains row) expected_fields"
    if "collect_rows file_path expected_fields rows = (data, lg)" "row \<in> set data"
    for rows data lg
    using that collect_rows_fst [of file_path expected_fields rows] by simp
  have ro: "row \<in> set (fst (read_opened file_path expected_fields ls bad))
      \<Longrightarrow> list_all (contains row) expected_fields" for ls bad
    by (auto simp: read_opened_def split: prod.splits option.splits dest: cr)
  from assms show ?thesis
    by (cases "fs file_path") (auto simp: load_from_csv_def dest: ro)
qed

text \<open>
  A row with every required column makes a project unless its \<open>is_current\<close> is \<open>None\<close>,
  and then the exception is \<open>AttributeError\<close>.
\<close>

lemma make_project_valid:
  assumes valid: "list_all (contains row) projects_fields"
  shows "(\<exists>p. make_project row = Inr p)
       \<or> (make_project row = Inl AttributeError \<and> getitem row ''is_current'' = Inr None)"
proof -
  have g: "\<exists>v. getitem row k = Inr v" if "k \<in> set projects_fields" for k
    using valid that by (auto simp: list_all_iff intro: contains_getitem)
  obtain t where t: "getitem row ''title'' = Inr t"
    using g [of "''title''"] by (auto simp: projects_fields_def)
  obtain d where d: "getitem row ''description'' = Inr d"
    using g [of "''description''"] by (auto simp: projects_fields_def)
  obtain ts where ts: "getitem row ''tech_stack'' = Inr ts"
    using g [of "''tech_stack''"] by (auto simp: projects_fields_def)
  obtain c where c: "getitem row ''category'' = Inr c"
    using g [of "''category''"] by (auto simp: projects_fields_def)
  obtain gh where gh: "getitem row ''github_url'' = Inr gh"
    using g [of "''github_url''"] by (auto simp: projects_fields_def)
  obtain dm where dm: "getitem row ''demo_url'' = Inr dm"
    using g [of "''demo_url''"] by (auto simp: projects_fields_def)
  obtain ic where ic: "getitem row ''is_current'' = Inr ic"
    using g [of "''is_current''"] by (auto simp: projects_fields_def)
  obtain im where im: "getitem row ''image_url'' = Inr im"
    using g [of "''image_url''"] by (auto simp: projects_fields_def)
  from t d ts c gh dm ic im show ?thesis
    by (cases ic) (simp_all add: make_project_def bind_exn_def lower_method_def)
qed

lemma build_projects_valid:
  "\<forall>row \<in> set rows. list_all (contains row) projects_fields \<Longrightarrow>
     (\<exists>ps. build_projects rows = Inr ps)
     \<or> (build_projects rows = Inl AttributeError
         \<and> (\<exists>row \<in> set rows. getitem row ''is_current'' = Inr None))"
proof (induction rows)
  case Nil
  show ?case by simp
next
  case (Cons row rows)
  from Cons.prems have "list_all (contains row) projects_fields" by simp
  from make_project_valid [OF this] Cons.IH Cons.prems show ?case
    by (auto simp: bind_exn_def)
qed

text \<open>
  \<open>get_portfolio_data\<close> raises exactly when \<open>load_projects\<close> does; the exception is
  \<open>AttributeError\<close>, from a loaded project row with \<open>None\<close> under \<open>is_current\<close>.
\<close>

lemma get_portfolio_data_raises_iff:
  "fst (get_portfolio_data fs) = Inl e \<longleftrightarrow> fst (load_projects fs) = Inl e"
  by (auto simp: get_portfolio_data_def split: prod.splits sum.splits)

lemma load_projects_raises:
  assumes "fst (load_projects fs) = Inl e"
  shows "e = AttributeError
       \<and> (\<exists>row \<in> set (fst (load_from_csv fs ''data/projects.csv'' projects_fields)).
            getitem row ''is_current'' = Inr None)"
proof -
  let ?rows = "fst (load_from_csv fs ''data/projects.csv'' projects_fields)"
  have "\<forall>row \<in> set ?rows. list_all (contains row) projects_fields"
    by (auto dest: loaded_rows_valid)
  from build_projects_valid [OF this] assms show ?thesis
    by (auto simp: load_projects_def split: prod.splits)
qed

end
